theory Spec2Isabelle
  imports Complex_Main
begin

section \<open>Data model\<close>

text \<open>
  The Go types of \<^verbatim>\<open>internal/models\<close> and \<^verbatim>\<open>internal/services\<close>, and the three tables of
  \<^verbatim>\<open>database.Migrate\<close>. A \<^verbatim>\<open>float64\<close> is read as the real number it denotes (the values
  come from JSON numbers and from SQL sums of DECIMAL columns, so there is no NaN and no
  infinity); the rounding of float arithmetic is not modelled. Go's \<^verbatim>\<open>int\<close> and \<^verbatim>\<open>int64\<close> are
  \<open>int\<close>: the counters of this program stay far below \<open>2 ^ 63\<close>. A point in time is
  its number of milliseconds since the epoch. A nullable column and a Go pointer field are
  an \<open>option\<close>.
\<close>

type_synonym float64 = real
type_synonym time = int

text \<open>\<^verbatim>\<open>models.TransactionInput\<close>\<close>

record TransactionInput =
  Amount :: float64
  Type :: string
  Category :: string
  Operator :: string
  Recipient :: "string option"
  Balance :: "float64 option"
  Reference :: "string option"
  Description :: "string option"
  SMSHash :: int
  Date :: int

text \<open>\<^verbatim>\<open>models.SyncRequest\<close>\<close>

record SyncRequest =
  DeviceID :: string
  Transactions :: "TransactionInput list"
  Timestamp :: int

text \<open>A row of table \<^verbatim>\<open>transactions\<close>; \<^verbatim>\<open>created_at\<close> is never read and is left out.\<close>

record txn_row =
  tx_id :: string
  tx_user_id :: string
  tx_amount :: real
  tx_type :: string
  tx_category :: string
  tx_operator :: string
  tx_recipient :: "string option"
  tx_balance :: "real option"
  tx_reference :: "string option"
  tx_description :: "string option"
  tx_sms_hash :: int
  tx_date :: time

text \<open>A row of table \<^verbatim>\<open>users\<close>, with the columns the handlers read.\<close>

record user_row =
  usr_id :: string
  usr_device_id :: string
  usr_fcm_token :: "string option"
  usr_consent_given :: bool

text \<open>\<^verbatim>\<open>services.AIInsight\<close>, and the anonymous struct \<^verbatim>\<open>parseInsights\<close> decodes into.\<close>

record AIInsight =
  Title :: string
  Message :: string
  InsightCategory :: string
  Priority :: string
  GeneratedAt :: time

record RawInsight =
  raw_Title :: string
  raw_Message :: string
  raw_Category :: string
  raw_Priority :: string

text \<open>A row of table \<^verbatim>\<open>user_insights\<close>.\<close>

record insight_row =
  ins_user_id :: string
  ins_title :: string
  ins_message :: string
  ins_category :: string
  ins_priority :: string
  ins_generated_at :: time

text \<open>
  \<^verbatim>\<open>services.SpendingData\<close>. \<^verbatim>\<open>PreviousPeriod\<close> is never assigned (it stays nil) and is
  left out; \<^verbatim>\<open>TopMerchants\<close> is never assigned either and stays the empty slice.
\<close>

record SpendingData =
  UserID :: string
  Period :: string
  TotalIncome :: float64
  TotalExpenses :: float64
  NetBalance :: float64
  ByCategory :: "string \<rightharpoonup> float64"
  TopMerchants :: "string list"
  TransactionCount :: int
  SavingsDeposits :: float64

text \<open>
  The \<^verbatim>\<open>context.Context\<close> handed to the external calls: the scheduled sweep passes
  \<^verbatim>\<open>nil\<close>, the on-demand endpoint the context of the inbound request.
\<close>

datatype go_context = NilContext | RequestContext

text \<open>The statements sent to the store, named by the place that sends them.\<close>

datatype stmt =
    ConsentQuery string
  | Begin
  | InsertTransaction nat
  | Commit
  | UsersQuery
  | TotalsQuery string
  | CategoryQuery string
  | SavingsQuery string
  | InsertInsight string nat

text \<open>
  What the program takes from outside its own code: library functions whose source is not
  part of the repository, the two external services, and the store's ability to fail.
  Each is a parameter, so that every theorem holds for whatever they do.
  \<^item> \<open>uuid_New i\<close>: the identifier \<^verbatim>\<open>uuid.New()\<close> yields for the \<open>i\<close>-th candidate;
  \<^item> \<open>Sscanf_d s\<close>: \<^verbatim>\<open>fmt.Sscanf(s, "%d", &i)\<close>, \<open>None\<close> when it returns an error;
  \<^item> \<open>AddDate y m d t\<close>: \<^verbatim>\<open>t.AddDate(y, m, d)\<close>;
  \<^item> \<open>TrimSpace\<close>, \<open>json_Unmarshal\<close> (\<open>None\<close> on error), \<open>Sprintf_f0\<close> (the verb
    \<^verbatim>\<open>%.0f\<close>): \<^verbatim>\<open>strings\<close>, \<^verbatim>\<open>encoding/json\<close>, \<^verbatim>\<open>fmt\<close>;
  \<^item> \<open>prompt_text\<close>: the text \<^verbatim>\<open>buildAnalysisPrompt\<close> renders (it iterates a Go map, whose
    order is not fixed, and formats floats);
  \<^item> \<open>http_generate ctx prompt\<close>: what \<^verbatim>\<open>generateContent\<close> does once its request is
    built, from \<^verbatim>\<open>s.httpClient.Do(req)\<close> to its return: \<open>Inl\<close> an error (the transport
    failed, the body could not be read, the status is not 200, the body does not decode,
    there is no candidate), \<open>Inr\<close> the text of the first part of the first candidate;
  \<^item> \<open>fcm_Send ctx token title body\<close>: \<^verbatim>\<open>messaging.Client.Send\<close>, \<open>Some\<close> an error;
  \<^item> \<open>today_6am t\<close>: \<^verbatim>\<open>time.Date(t.Year(), t.Month(), t.Day(), 6, 0, 0, 0, t.Location())\<close>;
  \<^item> \<open>fcm_available\<close>: the handler was built with a messaging service
    (\<^verbatim>\<open>h.fcm != nil\<close>);
  \<^item> \<open>db_err s\<close>: the store answers statement \<open>s\<close> with an error. A result set, once
    returned, is read in full: failures of \<^verbatim>\<open>rows.Next\<close> and \<^verbatim>\<open>rows.Scan\<close> on single rows
    are not modelled.
\<close>

record env =
  uuid_New :: "nat \<Rightarrow> string"
  Sscanf_d :: "string \<Rightarrow> int option"
  AddDate :: "int \<Rightarrow> int \<Rightarrow> int \<Rightarrow> time \<Rightarrow> time"
  TrimSpace :: "string \<Rightarrow> string"
  json_Unmarshal :: "string \<Rightarrow> RawInsight list option"
  Sprintf_f0 :: "float64 \<Rightarrow> string"
  prompt_text :: "SpendingData \<Rightarrow> string"
  http_generate :: "go_context \<Rightarrow> string \<Rightarrow> string + string"
  fcm_Send :: "go_context \<Rightarrow> string \<Rightarrow> string \<Rightarrow> string \<Rightarrow> string option"
  today_6am :: "time \<Rightarrow> time"
  fcm_available :: bool
  db_err :: "stmt \<Rightarrow> bool"

text \<open>
  The state the handlers act on: the three tables, and the two logs of what was sent to
  the external services (the prompts posted to the text-generation service, and the
  token, title and body of each push message handed to the messaging client).
\<close>

record world =
  users :: "user_row list"
  transactions :: "txn_row list"
  user_insights :: "insight_row list"
  gemini_log :: "string list"
  fcm_log :: "(string \<times> string \<times> string) list"

section \<open>Transaction ingestion: \<^verbatim>\<open>SyncHandler.Sync\<close>\<close>

datatype sync_response =
    BadRequest
  | Forbidden
  | InternalServerError
  | SyncCompleted (inserted: int) (skipped: int) (total: int)

text \<open>
  \<^verbatim>\<open>SELECT consent_given FROM users WHERE id = $1\<close> scanned into a bool: \<open>None\<close> is
  \<^verbatim>\<open>err != nil\<close> (the store failed, or there is no such row).
\<close>

definition query_consent :: "env \<Rightarrow> world \<Rightarrow> string \<Rightarrow> bool option" where
  "query_consent e w userID =
     (if db_err e (ConsentQuery userID) then None
      else map_option usr_consent_given (find (\<lambda>u. usr_id u = userID) (users w)))"

text \<open>
  The column \<^verbatim>\<open>amount DECIMAL(15, 2)\<close> keeps two decimal places, rounding ties away from
  zero; a value too large for the column makes the statement fail, which \<open>db_err\<close> covers.
\<close>

definition numeric_15_2 :: "real \<Rightarrow> real" where
  "numeric_15_2 x = sgn x * real_of_int \<lfloor>\<bar>x\<bar> * 100 + 1 / 2\<rfloor> / 100"

text \<open>The row the INSERT of the loop writes for the \<open>i\<close>-th candidate \<open>t\<close>.\<close>

definition new_row :: "env \<Rightarrow> nat \<Rightarrow> string \<Rightarrow> TransactionInput \<Rightarrow> txn_row" where
  "new_row e i userID t =
     \<lparr>tx_id = uuid_New e i, tx_user_id = userID, tx_amount = numeric_15_2 (Amount t),
      tx_type = Type t, tx_category = Category t, tx_operator = Operator t,
      tx_recipient = Recipient t, tx_balance = map_option numeric_15_2 (Balance t),
      tx_reference = Reference t, tx_description = Description t,
      tx_sms_hash = SMSHash t, tx_date = Date t\<rparr>"

text \<open>The constraint \<^verbatim>\<open>UNIQUE(user_id, sms_hash)\<close>: does the table hold the key already?\<close>

definition conflict :: "txn_row list \<Rightarrow> string \<Rightarrow> int \<Rightarrow> bool" where
  "conflict tbl userID h = list_ex (\<lambda>r. tx_user_id r = userID \<and> tx_sms_hash r = h) tbl"

text \<open>
  \<^verbatim>\<open>tx.Exec(INSERT ... ON CONFLICT (user_id, sms_hash) DO NOTHING)\<close> on the table as the
  open transaction sees it: \<open>None\<close> is an error, otherwise the table and the number of rows
  affected.
\<close>

definition tx_Exec :: "env \<Rightarrow> nat \<Rightarrow> txn_row \<Rightarrow> txn_row list \<Rightarrow> (txn_row list \<times> int) option" where
  "tx_Exec e i r tbl =
     (if db_err e (InsertTransaction i) then None
      else if conflict tbl (tx_user_id r) (tx_sms_hash r) then Some (tbl, 0)
      else Some (tbl @ [r], 1))"

text \<open>
  The loop \<^verbatim>\<open>for _, t := range req.Transactions\<close>, with the table of the open transaction
  and the two counters threaded through; \<open>i\<close> is the position of the candidate.
\<close>

fun sync_loop ::
  "env \<Rightarrow> string \<Rightarrow> nat \<Rightarrow> TransactionInput list \<Rightarrow> txn_row list \<Rightarrow> int \<Rightarrow> int
     \<Rightarrow> txn_row list \<times> int \<times> int" where
  "sync_loop e userID i [] tbl insertedCount skippedCount = (tbl, insertedCount, skippedCount)"
| "sync_loop e userID i (t # ts) tbl insertedCount skippedCount =
     (case tx_Exec e i (new_row e i userID t) tbl of
        None \<Rightarrow> sync_loop e userID (Suc i) ts tbl insertedCount (skippedCount + 1)
      | Some (tbl', rowsAffected) \<Rightarrow>
          if rowsAffected > 0
          then sync_loop e userID (Suc i) ts tbl' (insertedCount + 1) skippedCount
          else sync_loop e userID (Suc i) ts tbl' insertedCount (skippedCount + 1))"

text \<open>
  \<^verbatim>\<open>SyncHandler.Sync\<close>. The argument \<open>bound\<close> is the outcome of
  \<^verbatim>\<open>c.ShouldBindJSON(&req)\<close>: \<open>None\<close> when it returns an error (a body that is not JSON
  of the expected shape, or a missing required field). A failed commit, like every return
  before the commit, leaves the table as it was (\<^verbatim>\<open>defer tx.Rollback()\<close>).
\<close>

definition Sync :: "env \<Rightarrow> world \<Rightarrow> string \<Rightarrow> SyncRequest option \<Rightarrow> sync_response \<times> world" where
  "Sync e w userID bound =
     (case bound of
        None \<Rightarrow> (BadRequest, w)
      | Some req \<Rightarrow>
          (case query_consent e w userID of
             None \<Rightarrow> (Forbidden, w)
           | Some consentGiven \<Rightarrow>
               if \<not> consentGiven then (Forbidden, w)
               else if db_err e Begin then (InternalServerError, w)
               else
                 (case sync_loop e userID 0 (Transactions req) (transactions w) 0 0 of
                    (tbl, insertedCount, skippedCount) \<Rightarrow>
                      if db_err e Commit then (InternalServerError, w)
                      else (SyncCompleted insertedCount skippedCount
                              (int (length (Transactions req))),
                            w\<lparr>transactions := tbl\<rparr>))))"

section \<open>Transaction listing: the pagination of \<^verbatim>\<open>SyncHandler.GetTransactions\<close>\<close>

text \<open>\<^verbatim>\<open>parseInt\<close>: the scanned integer, \<open>None\<close> when \<^verbatim>\<open>Sscanf\<close> returns an error.\<close>

definition parseInt :: "env \<Rightarrow> string \<Rightarrow> int option" where
  "parseInt e s = Sscanf_d e s"

text \<open>
  The block under \<^verbatim>\<open>// Pagination\<close>: \<open>l\<close> and \<open>o\<close> are \<^verbatim>\<open>c.Query("limit")\<close> and
  \<^verbatim>\<open>c.Query("offset")\<close>, the empty string when the parameter is absent. The result is the
  pair \<^verbatim>\<open>(limit, offset)\<close> given to the query and echoed in the response.
\<close>

definition page_limit :: "env \<Rightarrow> string \<Rightarrow> int" where
  "page_limit e l =
     (if l \<noteq> [] then
        (case parseInt e l of
           Some parsed \<Rightarrow> if parsed > 0 \<and> parsed \<le> 100 then parsed else 50
         | None \<Rightarrow> 50)
      else 50)"

definition page_offset :: "env \<Rightarrow> string \<Rightarrow> int" where
  "page_offset e o' =
     (if o' \<noteq> [] then
        (case parseInt e o' of
           Some parsed \<Rightarrow> if parsed \<ge> 0 then parsed else 0
         | None \<Rightarrow> 0)
      else 0)"

definition GetTransactions_pagination :: "env \<Rightarrow> string \<Rightarrow> string \<Rightarrow> int \<times> int" where
  "GetTransactions_pagination e l o' = (page_limit e l, page_offset e o')"

section \<open>Insight generation: \<^verbatim>\<open>services.GeminiService\<close>\<close>

text \<open>\<^verbatim>\<open>strings.TrimPrefix\<close> and \<^verbatim>\<open>strings.TrimSuffix\<close>.\<close>

definition TrimPrefix :: "string \<Rightarrow> string \<Rightarrow> string" where
  "TrimPrefix s p = (if take (length p) s = p then drop (length p) s else s)"

definition TrimSuffix :: "string \<Rightarrow> string \<Rightarrow> string" where
  "TrimSuffix s p =
     (if length p \<le> length s \<and> drop (length s - length p) s = p
      then take (length s - length p) s else s)"

text \<open>
  \<^verbatim>\<open>generateContent\<close>. The request body is a struct of strings and numbers and always
  marshals. \<^verbatim>\<open>http.NewRequestWithContext\<close> refuses a nil context, so with the context
  the sweep passes the function returns \<^verbatim>\<open>failed to create request\<close> before anything is
  sent. With the context of a request, one exchange with the text-generation service takes
  place and is recorded in the log.
\<close>

definition generateContent :: "env \<Rightarrow> go_context \<Rightarrow> world \<Rightarrow> string \<Rightarrow> (string + string) \<times> world" where
  "generateContent e ctx w prompt =
     (case ctx of
        NilContext \<Rightarrow> (Inl ''failed to create request: net/http: nil Context'', w)
      | RequestContext \<Rightarrow>
          (http_generate e ctx prompt, w\<lparr>gemini_log := gemini_log w @ [prompt]\<rparr>))"

text \<open>
  \<^verbatim>\<open>parseInsights\<close>: the clean-up of the response (the five reassignments of
  \<^verbatim>\<open>response\<close>), then the decoding; \<open>now\<close> is the reading of \<^verbatim>\<open>time.Now()\<close>.
\<close>

definition clean_response :: "env \<Rightarrow> string \<Rightarrow> string" where
  "clean_response e response =
     (let response = TrimSpace e response;
          response = TrimPrefix response ''```json'';
          response = TrimPrefix response ''```'';
          response = TrimSuffix response ''```'';
          response = TrimSpace e response
      in response)"

definition parseInsights :: "env \<Rightarrow> time \<Rightarrow> string \<Rightarrow> string + AIInsight list" where
  "parseInsights e now response =
     (case json_Unmarshal e (clean_response e response) of
        None \<Rightarrow> Inl ''failed to unmarshal insights''
      | Some rawInsights \<Rightarrow>
          Inr (map (\<lambda>raw. \<lparr>Title = raw_Title raw, Message = raw_Message raw,
                            InsightCategory = raw_Category raw, Priority = raw_Priority raw,
                            GeneratedAt = now\<rparr>) rawInsights))"

text \<open>
  The three pre-written insights of \<^verbatim>\<open>fallbackInsights\<close>. Their titles start with an
  emoji, written here as its UTF-8 bytes.
\<close>

definition savings_title :: string where
  "savings_title = [CHR 0xF0, CHR 0x9F, CHR 0x92, CHR 0xB0] @ '' Great Saving Habit!''"

definition positive_title :: string where
  "positive_title = [CHR 0xF0, CHR 0x9F, CHR 0x93, CHR 0x88] @ '' Positive Balance''"

definition alert_title :: string where
  "alert_title = [CHR 0xE2, CHR 0x9A, CHR 0xA0, CHR 0xEF, CHR 0xB8, CHR 0x8F] @ '' Spending Alert''"

definition savings_insight :: "env \<Rightarrow> time \<Rightarrow> SpendingData \<Rightarrow> AIInsight" where
  "savings_insight e now d =
     \<lparr>Title = savings_title,
      Message = ''You'' @ [CHR 0x27] @ ''ve saved K'' @ Sprintf_f0 e (SavingsDeposits d)
                  @ '' this period. Keep it up!'',
      InsightCategory = ''savings'', Priority = ''high'', GeneratedAt = now\<rparr>"

definition positive_insight :: "env \<Rightarrow> time \<Rightarrow> SpendingData \<Rightarrow> AIInsight" where
  "positive_insight e now d =
     \<lparr>Title = positive_title,
      Message = ''Your income exceeds expenses by K'' @ Sprintf_f0 e (NetBalance d)
                  @ ''. Consider saving the surplus!'',
      InsightCategory = ''tip'', Priority = ''medium'', GeneratedAt = now\<rparr>"

definition alert_insight :: "env \<Rightarrow> time \<Rightarrow> SpendingData \<Rightarrow> AIInsight" where
  "alert_insight e now d =
     \<lparr>Title = alert_title,
      Message = ''You'' @ [CHR 0x27] @ ''ve spent K'' @ Sprintf_f0 e (- NetBalance d)
                  @ '' more than earned. Review your expenses.'',
      InsightCategory = ''spending'', Priority = ''high'', GeneratedAt = now\<rparr>"

text \<open>\<^verbatim>\<open>fallbackInsights\<close>: the slice after the two appends.\<close>

definition fallbackInsights :: "env \<Rightarrow> time \<Rightarrow> SpendingData \<Rightarrow> AIInsight list" where
  "fallbackInsights e now d =
     (let insights = [];
          insights = (if SavingsDeposits d > 0 then insights @ [savings_insight e now d]
                      else insights);
          insights = (if NetBalance d > 0 then insights @ [positive_insight e now d]
                      else if NetBalance d < 0 then insights @ [alert_insight e now d]
                      else insights)
      in insights)"

text \<open>\<^verbatim>\<open>AnalyzeSpending\<close>: \<open>Inl\<close> is the returned error, \<open>Inr\<close> the insights.\<close>

definition AnalyzeSpending ::
  "env \<Rightarrow> go_context \<Rightarrow> time \<Rightarrow> world \<Rightarrow> SpendingData \<Rightarrow> (string + AIInsight list) \<times> world" where
  "AnalyzeSpending e ctx now w d =
     (let prompt = prompt_text e d in
      case generateContent e ctx w prompt of
        (Inl err, w') \<Rightarrow> (Inl (''failed to generate content: '' @ err), w')
      | (Inr response, w') \<Rightarrow>
          (case parseInsights e now response of
             Inl err \<Rightarrow> (Inr (fallbackInsights e now d), w')
           | Inr insights \<Rightarrow> (Inr insights, w')))"

text \<open>
  \<^verbatim>\<open>GenerateNotificationText\<close>. The loop starts from the zero value of \<^verbatim>\<open>AIInsight\<close>
  and runs over the whole slice: there is no \<^verbatim>\<open>break\<close>.
\<close>

definition zero_AIInsight :: AIInsight where
  "zero_AIInsight = \<lparr>Title = [], Message = [], InsightCategory = [], Priority = [], GeneratedAt = 0\<rparr>"

fun best_loop :: "AIInsight \<Rightarrow> AIInsight list \<Rightarrow> AIInsight" where
  "best_loop best [] = best"
| "best_loop best (insight # rest) =
     (if Priority insight = ''high'' \<or> Title best = []
      then best_loop insight rest else best_loop best rest)"

definition summary_title :: string where
  "summary_title = [CHR 0xF0, CHR 0x9F, CHR 0x93, CHR 0x8A] @ '' Daily Summary''"

definition GenerateNotificationText :: "AIInsight list \<Rightarrow> string \<times> string" where
  "GenerateNotificationText insights =
     (if length insights = 0
      then (summary_title, ''Check your spending insights in the app!'')
      else (let best = best_loop zero_AIInsight insights in (Title best, Message best)))"

section \<open>Spending aggregation: \<^verbatim>\<open>InsightsHandler.fetchSpendingData\<close>\<close>

text \<open>The \<^verbatim>\<open>switch period\<close> that sets \<^verbatim>\<open>startDate\<close>.\<close>

definition startDate_of :: "env \<Rightarrow> time \<Rightarrow> string \<Rightarrow> time" where
  "startDate_of e now period =
     (if period = ''daily'' then AddDate e 0 0 (- 1) now
      else if period = ''weekly'' then AddDate e 0 0 (- 7) now
      else if period = ''monthly'' then AddDate e 0 (- 1) 0 now
      else AddDate e 0 0 (- 1) now)"

text \<open>The rows selected by \<^verbatim>\<open>WHERE user_id = $1 AND date >= $2\<close>.\<close>

definition rows_since :: "world \<Rightarrow> string \<Rightarrow> time \<Rightarrow> txn_row list" where
  "rows_since w userID startDate =
     filter (\<lambda>r. tx_user_id r = userID \<and> tx_date r \<ge> startDate) (transactions w)"

text \<open>\<^verbatim>\<open>COALESCE(SUM(CASE WHEN type = k THEN amount ELSE 0 END), 0)\<close> over the rows.\<close>

definition sum_of_kind :: "string \<Rightarrow> txn_row list \<Rightarrow> real" where
  "sum_of_kind k rows = sum_list (map (\<lambda>r. if tx_type r = k then tx_amount r else 0) rows)"

text \<open>
  \<^verbatim>\<open>SELECT category, COALESCE(SUM(amount), 0) ... GROUP BY category\<close>: one result row for
  each category that occurs.
\<close>

definition group_by_category :: "txn_row list \<Rightarrow> (string \<times> real) list" where
  "group_by_category rows =
     map (\<lambda>c. (c, sum_list (map tx_amount (filter (\<lambda>r. tx_category r = c) rows))))
       (remdups (map tx_category rows))"

text \<open>The loop \<^verbatim>\<open>data.ByCategory[cat] = amount\<close> over the result rows.\<close>

fun fill_ByCategory :: "(string \<times> real) list \<Rightarrow> (string \<rightharpoonup> real) \<Rightarrow> (string \<rightharpoonup> real)" where
  "fill_ByCategory [] m = m"
| "fill_ByCategory ((cat, amount) # rest) m = fill_ByCategory rest (m(cat \<mapsto> amount))"

text \<open>
  \<^verbatim>\<open>fetchSpendingData\<close>: \<open>None\<close> is the error return, after a failed totals query. A failed
  category query leaves the map empty and a failed savings query leaves the figure at 0,
  as the source ignores both errors.
\<close>

definition fetchSpendingData :: "env \<Rightarrow> world \<Rightarrow> time \<Rightarrow> string \<Rightarrow> string \<Rightarrow> SpendingData option" where
  "fetchSpendingData e w now userID period =
     (let startDate = startDate_of e now period;
          rows = rows_since w userID startDate
      in if db_err e (TotalsQuery userID) then None
         else
           (let totalIncome = sum_of_kind ''INCOME'' rows;
                totalExpenses = sum_of_kind ''EXPENSE'' rows;
                byCategory =
                  (if db_err e (CategoryQuery userID) then Map.empty
                   else fill_ByCategory
                          (group_by_category (filter (\<lambda>r. tx_type r = ''EXPENSE'') rows))
                          Map.empty);
                savingsDeposits =
                  (if db_err e (SavingsQuery userID) then 0
                   else sum_list (map tx_amount
                          (filter (\<lambda>r. tx_category r = ''SAVINGS'' \<and> tx_type r = ''EXPENSE'') rows)))
            in Some \<lparr>UserID = userID, Period = period, TotalIncome = totalIncome,
                     TotalExpenses = totalExpenses, NetBalance = totalIncome - totalExpenses,
                     ByCategory = byCategory, TopMerchants = [],
                     TransactionCount = int (length rows),
                     SavingsDeposits = savingsDeposits\<rparr>))"

text \<open>
  The window as the specification words it, \<open>[now - period, now]\<close>, for comparison with
  the window of the queries.
\<close>

definition spec_window :: "time \<Rightarrow> time \<Rightarrow> time \<Rightarrow> bool" where
  "spec_window startDate now t = (startDate \<le> t \<and> t \<le> now)"

text \<open>
  In the specification's words: the user's transactions within that window, and the sum of
  the amounts of those of kind \<open>k\<close>.
\<close>

definition spec_window_rows :: "world \<Rightarrow> string \<Rightarrow> time \<Rightarrow> time \<Rightarrow> txn_row list" where
  "spec_window_rows w userID startDate now =
     filter (\<lambda>r. tx_user_id r = userID \<and> spec_window startDate now (tx_date r)) (transactions w)"

definition spec_sum_of_kind :: "world \<Rightarrow> string \<Rightarrow> time \<Rightarrow> time \<Rightarrow> string \<Rightarrow> real" where
  "spec_sum_of_kind w userID startDate now k =
     sum_list (map tx_amount (filter (\<lambda>r. tx_type r = k) (spec_window_rows w userID startDate now)))"

section \<open>The insight pipeline: \<^verbatim>\<open>InsightsHandler\<close>\<close>

datatype insights_response =
    FetchFailed
  | NoTransactions
  | AnalysisFailed
  | InsightsGenerated "AIInsight list" string int

text \<open>\<^verbatim>\<open>GenerateInsights\<close>, the on-demand endpoint.\<close>

definition GenerateInsights :: "env \<Rightarrow> world \<Rightarrow> time \<Rightarrow> string \<Rightarrow> insights_response \<times> world" where
  "GenerateInsights e w now userID =
     (case fetchSpendingData e w now userID ''daily'' of
        None \<Rightarrow> (FetchFailed, w)
      | Some spendingData \<Rightarrow>
          if TransactionCount spendingData = 0 then (NoTransactions, w)
          else
            (case AnalyzeSpending e RequestContext now w spendingData of
               (Inl err, w') \<Rightarrow> (AnalysisFailed, w')
             | (Inr insights, w') \<Rightarrow>
                 (InsightsGenerated insights ''daily'' (TransactionCount spendingData), w')))"

text \<open>
  \<^verbatim>\<open>storeInsights\<close>: one INSERT for each insight, the error of each ignored; \<open>i\<close> is the
  position of the insight.
\<close>

definition insight_row_of :: "string \<Rightarrow> AIInsight \<Rightarrow> insight_row" where
  "insight_row_of userID insight =
     \<lparr>ins_user_id = userID, ins_title = Title insight, ins_message = Message insight,
      ins_category = InsightCategory insight, ins_priority = Priority insight,
      ins_generated_at = GeneratedAt insight\<rparr>"

fun store_loop :: "env \<Rightarrow> string \<Rightarrow> nat \<Rightarrow> AIInsight list \<Rightarrow> world \<Rightarrow> world" where
  "store_loop e userID i [] w = w"
| "store_loop e userID i (insight # rest) w =
     store_loop e userID (Suc i) rest
       (if db_err e (InsertInsight userID i) then w
        else w\<lparr>user_insights := user_insights w @ [insight_row_of userID insight]\<rparr>)"

definition storeInsights :: "env \<Rightarrow> world \<Rightarrow> string \<Rightarrow> AIInsight list \<Rightarrow> world" where
  "storeInsights e w userID insights = store_loop e userID 0 insights w"

text \<open>\<^verbatim>\<open>FCMService.SendNotification\<close>: \<open>Some\<close> is the returned error.\<close>

definition SendNotification ::
  "env \<Rightarrow> go_context \<Rightarrow> world \<Rightarrow> string \<Rightarrow> string \<Rightarrow> string \<Rightarrow> string option \<times> world" where
  "SendNotification e ctx w token title body =
     (fcm_Send e ctx token title body, w\<lparr>fcm_log := fcm_log w @ [(token, title, body)]\<rparr>)"

text \<open>
  The body of the loop \<^verbatim>\<open>for rows.Next()\<close> of \<^verbatim>\<open>RunDailyAnalysis\<close> for one row
  \<^verbatim>\<open>(userID, fcmToken)\<close>, on the state and the two counters
  \<^verbatim>\<open>(successCount, errorCount)\<close>. \<open>now userID\<close> is the reading of the clock when the
  user's aggregate is fetched. The error of the push is logged and dropped; the log lines
  and the pause of 500 ms that ends the body do not act on the state and are left out.
\<close>

definition daily_user ::
  "env \<Rightarrow> (string \<Rightarrow> time) \<Rightarrow> user_row \<Rightarrow> world \<times> int \<times> int \<Rightarrow> world \<times> int \<times> int" where
  "daily_user e now u st =
     (case st of (w, successCount, errorCount) \<Rightarrow>
        (case fetchSpendingData e w (now (usr_id u)) (usr_id u) ''daily'' of
           None \<Rightarrow> st
         | Some spendingData \<Rightarrow>
             if TransactionCount spendingData = 0 then st
             else
               (case AnalyzeSpending e NilContext (now (usr_id u)) w spendingData of
                  (Inl err, w1) \<Rightarrow> (w1, successCount, errorCount + 1)
                | (Inr insights, w1) \<Rightarrow>
                    (let w2 = storeInsights e w1 (usr_id u) insights;
                         w3 = (case usr_fcm_token u of
                                 Some token \<Rightarrow>
                                   if fcm_available e
                                   then (case GenerateNotificationText insights of
                                           (title, body) \<Rightarrow>
                                             snd (SendNotification e NilContext w2 token title body))
                                   else w2
                               | None \<Rightarrow> w2)
                     in (w3, successCount + 1, errorCount)))))"

fun sweep_loop ::
  "env \<Rightarrow> (string \<Rightarrow> time) \<Rightarrow> user_row list \<Rightarrow> world \<times> int \<times> int \<Rightarrow> world \<times> int \<times> int" where
  "sweep_loop e now [] st = st"
| "sweep_loop e now (u # rest) st = sweep_loop e now rest (daily_user e now u st)"

text \<open>
  The rows of \<^verbatim>\<open>SELECT id, fcm_token FROM users WHERE consent_given = true AND fcm_token
  IS NOT NULL\<close>, in table order.
\<close>

definition sweep_users :: "world \<Rightarrow> user_row list" where
  "sweep_users w = filter (\<lambda>u. usr_consent_given u \<and> usr_fcm_token u \<noteq> None) (users w)"

text \<open>
  \<^verbatim>\<open>RunDailyAnalysis\<close>: the state after the sweep and the two counters of its last log
  line, \<open>None\<close> when the users query failed and the function returned at once.
\<close>

definition RunDailyAnalysis :: "env \<Rightarrow> (string \<Rightarrow> time) \<Rightarrow> world \<Rightarrow> world \<times> (int \<times> int) option" where
  "RunDailyAnalysis e now w =
     (if db_err e UsersQuery then (w, None)
      else (case sweep_loop e now (sweep_users w) (w, 0, 0) of
              (w', successCount, errorCount) \<Rightarrow> (w', Some (successCount, errorCount))))"

text \<open>
  \<^verbatim>\<open>startDailyScheduler\<close>. The time to sleep, from the reading \<open>t\<close> of the clock:
\<close>

definition until_next_6am :: "env \<Rightarrow> time \<Rightarrow> int" where
  "until_next_6am e t =
     (let next = today_6am e t;
          next = (if next < t then next + 24 * 3600000 else next)
      in next - t)"

text \<open>
  The loop \<^verbatim>\<open>for { ... }\<close> has no exit, so its model is the state after \<open>n\<close> rounds, for
  every \<open>n\<close>: each round sleeps and then runs the sweep. \<open>clock k\<close> is the reading of the
  clock at the start of round \<open>k\<close> and \<open>now k\<close> gives the readings during its sweep. The
  result lists, for each round, the time slept and what the sweep reported.
\<close>

fun scheduler_rounds ::
  "env \<Rightarrow> (nat \<Rightarrow> time) \<Rightarrow> (nat \<Rightarrow> string \<Rightarrow> time) \<Rightarrow> nat \<Rightarrow> world
     \<Rightarrow> world \<times> (int \<times> (int \<times> int) option) list" where
  "scheduler_rounds e clock now 0 w = (w, [])"
| "scheduler_rounds e clock now (Suc n) w =
     (case scheduler_rounds e clock now n w of
        (w1, reports) \<Rightarrow>
          (case RunDailyAnalysis e (now n) w1 of
             (w2, report) \<Rightarrow> (w2, reports @ [(until_next_6am e (clock n), report)])))"

section \<open>Example data\<close>

text \<open>
  A concrete environment and a small store, on which the theorems below are instantiated.
  The generation service fails for the prompt of user \<open>A\<close> and answers every other prompt
  with text that is not JSON; the store never fails; the push service accepts every
  message. Days are counted as 86400000 ms.
\<close>

definition example_env :: env where
  "example_env =
     \<lparr>uuid_New = (\<lambda>i. ''row''),
      Sscanf_d = (\<lambda>s. if s = ''150'' then Some 150 else if s = ''20'' then Some 20
                        else if s = ''-5'' then Some (- 5) else None),
      AddDate = (\<lambda>y m d t. t + d * 86400000),
      TrimSpace = (\<lambda>s. s),
      json_Unmarshal = (\<lambda>s. None),
      Sprintf_f0 = (\<lambda>x. if x = 460 then ''460'' else if x = 500 then ''500''
                        else if x = 40 then ''40'' else ''0''),
      prompt_text = UserID,
      http_generate = (\<lambda>ctx prompt. if prompt = ''A'' then Inl ''unavailable''
                                        else Inr ''no insights today''),
      fcm_Send = (\<lambda>ctx token title body. None),
      today_6am = (\<lambda>t. t - t mod 86400000 + 21600000),
      fcm_available = True,
      db_err = (\<lambda>s. False)\<rparr>"

definition example_user_A :: user_row where
  "example_user_A =
     \<lparr>usr_id = ''A'', usr_device_id = ''dev-a'', usr_fcm_token = Some ''tok-a'',
      usr_consent_given = True\<rparr>"

definition example_user_B :: user_row where
  "example_user_B =
     \<lparr>usr_id = ''B'', usr_device_id = ''dev-b'', usr_fcm_token = Some ''tok-b'',
      usr_consent_given = True\<rparr>"

definition example_user_C :: user_row where
  "example_user_C =
     \<lparr>usr_id = ''C'', usr_device_id = ''dev-c'', usr_fcm_token = None,
      usr_consent_given = False\<rparr>"

definition example_users :: "user_row list" where
  "example_users = [example_user_A, example_user_B, example_user_C]"

definition example_row :: "string \<Rightarrow> real \<Rightarrow> string \<Rightarrow> string \<Rightarrow> int \<Rightarrow> time \<Rightarrow> txn_row" where
  "example_row userID amount kind cat h t =
     \<lparr>tx_id = ''row'', tx_user_id = userID, tx_amount = amount, tx_type = kind,
      tx_category = cat, tx_operator = ''MTN'', tx_recipient = None, tx_balance = None,
      tx_reference = None, tx_description = None, tx_sms_hash = h, tx_date = t\<rparr>"

text \<open>
  The clock of the examples reads 200000000. User \<open>A\<close> spent 100 and user \<open>B\<close> received
  500 within the last day; \<open>B\<close> also has a payment of 40 dated one hour in the future and
  one of 7 dated three days ago. The only transaction of \<open>D\<close> is dated one hour in the
  future.
\<close>

definition example_world :: world where
  "example_world =
     \<lparr>users = example_users,
      transactions =
        [example_row ''A'' 100 ''EXPENSE'' ''FOOD'' 1 199000000,
         example_row ''B'' 500 ''INCOME'' ''TRANSFER'' 2 199500000,
         example_row ''B'' 40 ''EXPENSE'' ''AIRTIME'' 3 203600000,
         example_row ''B'' 7 ''EXPENSE'' ''FOOD'' 4 (- 59200000),
         example_row ''D'' 40 ''EXPENSE'' ''DATA'' 5 203600000],
      user_insights = [], gemini_log = [], fcm_log = []\<rparr>"

definition example_input :: "int \<Rightarrow> TransactionInput" where
  "example_input h =
     \<lparr>Amount = 25, Type = ''EXPENSE'', Category = ''DATA'', Operator = ''AIRTEL'',
      Recipient = None, Balance = None, Reference = None, Description = None,
      SMSHash = h, Date = 199900000\<rparr>"

definition example_request :: SyncRequest where
  "example_request =
     \<lparr>DeviceID = ''dev-a'', Transactions = [example_input 11, example_input 12],
      Timestamp = 200000000\<rparr>"

text \<open>An insight with a given title and priority, and a decoded element of a response.\<close>

definition example_insight :: "string \<Rightarrow> string \<Rightarrow> AIInsight" where
  "example_insight t p =
     \<lparr>Title = t, Message = ''about '' @ t, InsightCategory = ''tip'', Priority = p,
      GeneratedAt = 0\<rparr>"

definition example_raw :: RawInsight where
  "example_raw =
     \<lparr>raw_Title = ''Tip'', raw_Message = ''Save more'', raw_Category = ''tip'',
      raw_Priority = ''low''\<rparr>"

text \<open>An aggregate with one transaction, net balance +500 and no savings.\<close>

definition example_aggregate :: SpendingData where
  "example_aggregate =
     \<lparr>UserID = ''B'', Period = ''daily'', TotalIncome = 500, TotalExpenses = 0,
      NetBalance = 500, ByCategory = Map.empty, TopMerchants = [],
      TransactionCount = 1, SavingsDeposits = 0\<rparr>"

section \<open>Properties\<close>

lemmas example_user_defs =
  example_users_def example_user_A_def example_user_B_def example_user_C_def

subsection \<open>Ingestion\<close>

lemma sync_loop_counts:
  "sync_loop e userID i ts tbl ins skp = (tbl', ins', skp') \<Longrightarrow>
     ins' + skp' = ins + skp + int (length ts)"
proof (induction ts arbitrary: i tbl ins skp)
  case Nil
  then show ?case by simp
next
  case (Cons t ts)
  then show ?case
    by (auto simp: tx_Exec_def split: option.splits if_splits prod.splits)
qed

lemma sync_loop_nonneg:
  "sync_loop e userID i ts tbl ins skp = (tbl', ins', skp') \<Longrightarrow> ins \<le> ins' \<and> skp \<le> skp'"
proof (induction ts arbitrary: i tbl ins skp)
  case Nil
  then show ?case by simp
next
  case (Cons t ts)
  show ?case
  proof (cases "tx_Exec e i (new_row e i userID t) tbl")
    case None
    with Cons.prems have "sync_loop e userID (Suc i) ts tbl ins (skp + 1) = (tbl', ins', skp')"
      by simp
    from Cons.IH[OF this] show ?thesis by simp
  next
    case (Some p)
    obtain tbl1 n where p: "p = (tbl1, n)" by (cases p)
    show ?thesis
    proof (cases "n > 0")
      case True
      with Cons.prems Some p
      have "sync_loop e userID (Suc i) ts tbl1 (ins + 1) skp = (tbl', ins', skp')" by simp
      from Cons.IH[OF this] show ?thesis by simp
    next
      case False
      with Cons.prems Some p
      have "sync_loop e userID (Suc i) ts tbl1 ins (skp + 1) = (tbl', ins', skp')" by simp
      from Cons.IH[OF this] show ?thesis by simp
    qed
  qed
qed

lemma conflict_append:
  "conflict (tbl @ [r]) u h = (conflict tbl u h \<or> (tx_user_id r = u \<and> tx_sms_hash r = h))"
  by (auto simp: conflict_def list_ex_iff)

lemma new_row_key [simp]:
  "tx_user_id (new_row e i u t) = u" "tx_sms_hash (new_row e i u t) = SMSHash t"
  by (simp_all add: new_row_def)

text \<open>A batch whose keys are all present is skipped whole, whether or not statements fail.\<close>

lemma sync_loop_all_duplicates:
  "\<forall>t \<in> set ts. conflict tbl userID (SMSHash t) \<Longrightarrow>
     sync_loop e userID i ts tbl ins skp = (tbl, ins, skp + int (length ts))"
  by (induction ts arbitrary: i skp) (auto simp: tx_Exec_def)

text \<open>A batch of new, pairwise different keys is stored whole when no statement fails.\<close>

lemma sync_loop_all_fresh:
  "\<forall>j. \<not> db_err e (InsertTransaction j) \<Longrightarrow> distinct (map SMSHash ts) \<Longrightarrow>
   \<forall>t \<in> set ts. \<not> conflict tbl userID (SMSHash t) \<Longrightarrow>
     sync_loop e userID i ts tbl ins skp =
       (tbl @ map (\<lambda>(j, t). new_row e j userID t) (enumerate i ts), ins + int (length ts), skp)"
proof (induction ts arbitrary: i tbl ins)
  case Nil
  then show ?case by simp
next
  case (Cons t ts)
  have fresh: "\<forall>t' \<in> set ts. \<not> conflict (tbl @ [new_row e i userID t]) userID (SMSHash t')"
    using Cons.prems by (auto simp: conflict_append)
  have d: "distinct (map SMSHash ts)" using Cons.prems by simp
  have ex: "tx_Exec e i (new_row e i userID t) tbl = Some (tbl @ [new_row e i userID t], 1)"
    using Cons.prems by (simp add: tx_Exec_def)
  show ?case
    using Cons.IH[OF Cons.prems(1) d fresh, of "Suc i" "ins + 1"] ex by simp
qed

lemma conflict_stored:
  "t \<in> set ts \<Longrightarrow>
     conflict (tbl @ map (\<lambda>(j, t). new_row e j userID t) (enumerate i ts)) userID (SMSHash t)"
  by (induction ts arbitrary: i tbl) (auto simp: conflict_def list_ex_iff)

lemma query_consent_transactions [simp]:
  "query_consent e (w\<lparr>transactions := tbl\<rparr>) userID = query_consent e w userID"
  by (simp add: query_consent_def)

text \<open>
  Claim C1. A user passes the consent check and the store fails on no statement. The
  batch has pairwise different content hashes, none of them stored for the user. Then the
  first \<open>Sync\<close> reports all \<open>N\<close> candidates inserted and none skipped, and stores \<open>N\<close>
  rows; the same batch submitted again reports none inserted and \<open>N\<close> skipped, and leaves
  the state it found.
\<close>

theorem sync_idempotent:
  assumes consent: "query_consent e w userID = Some True"
    and store_ok: "\<not> db_err e Begin" "\<not> db_err e Commit" "\<forall>j. \<not> db_err e (InsertTransaction j)"
    and uniq: "distinct (map SMSHash (Transactions req))"
    and fresh: "\<forall>t \<in> set (Transactions req). \<not> conflict (transactions w) userID (SMSHash t)"
  shows "\<exists>w1. Sync e w userID (Some req) =
                 (SyncCompleted (int (length (Transactions req))) 0 (int (length (Transactions req))), w1)
             \<and> length (transactions w1) = length (transactions w) + length (Transactions req)
             \<and> Sync e w1 userID (Some req) =
                 (SyncCompleted 0 (int (length (Transactions req))) (int (length (Transactions req))), w1)"
proof -
  let ?ts = "Transactions req"
  let ?tbl = "transactions w @ map (\<lambda>(j, t). new_row e j userID t) (enumerate 0 ?ts)"
  let ?w1 = "w\<lparr>transactions := ?tbl\<rparr>"
  have first: "sync_loop e userID 0 ?ts (transactions w) 0 0 = (?tbl, int (length ?ts), 0)"
    using sync_loop_all_fresh[OF store_ok(3) uniq fresh, of 0 0 0] by simp
  have dup: "\<forall>t \<in> set ?ts. conflict ?tbl userID (SMSHash t)"
    by (simp add: conflict_stored)
  have second: "sync_loop e userID 0 ?ts ?tbl 0 0 = (?tbl, 0, int (length ?ts))"
    using sync_loop_all_duplicates[OF dup, of e 0 0 0] by simp
  have a: "Sync e w userID (Some req) = (SyncCompleted (int (length ?ts)) 0 (int (length ?ts)), ?w1)"
    using consent store_ok first by (simp add: Sync_def)
  have b: "Sync e ?w1 userID (Some req) = (SyncCompleted 0 (int (length ?ts)) (int (length ?ts)), ?w1)"
    using consent store_ok second by (simp add: Sync_def)
  have c: "length (transactions ?w1) = length (transactions w) + length ?ts" by simp
  from a b c show ?thesis by blast
qed

theorem sync_idempotent_witness:
  "\<exists>w1. Sync example_env example_world ''A'' (Some example_request) = (SyncCompleted 2 0 2, w1)
      \<and> length (transactions w1) = 7
      \<and> Sync example_env w1 ''A'' (Some example_request) = (SyncCompleted 0 2 2, w1)"
proof -
  have 1: "query_consent example_env example_world ''A'' = Some True"
    by (simp add: query_consent_def example_env_def example_world_def example_user_defs)
  have 2: "\<not> db_err example_env Begin" "\<not> db_err example_env Commit"
    "\<forall>j. \<not> db_err example_env (InsertTransaction j)"
    by (simp_all add: example_env_def)
  have 3: "distinct (map SMSHash (Transactions example_request))"
    by (simp add: example_request_def example_input_def)
  have 4: "\<forall>t \<in> set (Transactions example_request).
             \<not> conflict (transactions example_world) ''A'' (SMSHash t)"
    by (simp add: example_request_def example_input_def example_world_def conflict_def
        example_row_def)
  have 5: "length (Transactions example_request) = 2" "length (transactions example_world) = 5"
    by (simp_all add: example_request_def example_world_def)
  show ?thesis using sync_idempotent[OF 1 2 3 4] by (simp add: 5)
qed

text \<open>
  Claim C10. When the request binds and the consent check passes, \<open>Sync\<close> either fails
  at the begin or at the commit of the store's transaction, or reports counts with
  \<open>inserted + skipped = total\<close>, where \<open>total\<close> is the length of the batch. This
  holds whichever statements of the batch fail and whichever keys are duplicates.
\<close>

theorem sync_counts_total:
  assumes "query_consent e w userID = Some True"
  shows "(fst (Sync e w userID (Some req)) = InternalServerError \<and> (db_err e Begin \<or> db_err e Commit))
       \<or> (\<exists>i s. fst (Sync e w userID (Some req)) = SyncCompleted i s (int (length (Transactions req)))
              \<and> 0 \<le> i \<and> 0 \<le> s \<and> i + s = int (length (Transactions req))
              \<and> \<not> db_err e Begin \<and> \<not> db_err e Commit)"
proof (cases "db_err e Begin \<or> db_err e Commit")
  case True
  then show ?thesis using assms by (auto simp: Sync_def split: prod.splits)
next
  case False
  obtain tbl i s where l: "sync_loop e userID 0 (Transactions req) (transactions w) 0 0 = (tbl, i, s)"
    by (metis prod_cases3)
  from sync_loop_counts[OF l] sync_loop_nonneg[OF l] False assms l
  show ?thesis by (simp add: Sync_def)
qed

theorem sync_counts_total_witness:
  "fst (Sync (example_env\<lparr>db_err := (\<lambda>s. s = InsertTransaction 1)\<rparr>) example_world ''A''
         (Some \<lparr>DeviceID = ''dev-a'',
                Transactions = [example_input 11, example_input 12, example_input 11, example_input 13],
                Timestamp = 200000000\<rparr>)) = SyncCompleted 2 2 4"
proof -
  let ?e = "example_env\<lparr>db_err := (\<lambda>s. s = InsertTransaction 1)\<rparr>"
  let ?req = "\<lparr>DeviceID = ''dev-a'',
                Transactions = [example_input 11, example_input 12, example_input 11, example_input 13],
                Timestamp = 200000000\<rparr>"
  have 1: "query_consent ?e example_world ''A'' = Some True"
    by (simp add: query_consent_def example_env_def example_world_def example_user_defs)
  have 2: "fst (Sync ?e example_world ''A'' (Some ?req)) = SyncCompleted 2 2 4"
    by (simp add: Sync_def query_consent_def example_env_def example_world_def example_user_defs
        tx_Exec_def conflict_def new_row_def example_input_def example_row_def)
  from sync_counts_total[OF 1, of ?req] 2 show ?thesis by simp
qed

text \<open>
  Claim C2, as stated, fails for a request whose body does not bind: the handler answers
  such a request with a validation error before it looks at the consent flag. User \<open>C\<close>
  of the example has not consented.
\<close>

theorem sync_consent_gate_counterexample:
  "query_consent example_env example_world ''C'' = Some False
   \<and> Sync example_env example_world ''C'' None = (BadRequest, example_world)
   \<and> fst (Sync example_env example_world ''C'' None) \<noteq> Forbidden"
  by (simp add: Sync_def query_consent_def example_env_def example_world_def example_user_defs)

text \<open>
  Claim C2, amended. For a user whose consent flag is false, every request that binds is
  answered with the permission error, whatever the store does, and no request changes the
  state: no candidate is inserted.
\<close>

theorem sync_consent_gate:
  assumes "find (\<lambda>u. usr_id u = userID) (users w) = Some u" and "\<not> usr_consent_given u"
  shows "Sync e w userID (Some req) = (Forbidden, w) \<and> snd (Sync e w userID bound) = w"
  using assms by (cases bound) (simp_all add: Sync_def query_consent_def)

theorem sync_consent_gate_witness:
  "Sync example_env example_world ''C'' (Some example_request) = (Forbidden, example_world)
   \<and> snd (Sync example_env example_world ''C'' None) = example_world"
proof -
  have 1: "find (\<lambda>u. usr_id u = ''C'') (users example_world) = Some example_user_C"
    by (simp add: example_world_def example_user_defs)
  have 2: "\<not> usr_consent_given example_user_C"
    by (simp add: example_user_C_def)
  from sync_consent_gate[OF 1 2] show ?thesis by blast
qed

subsection \<open>Pagination\<close>

text \<open>
  Claim C3, as stated, fails for a requested page size above 100: the page size is then
  the default 50, not 100.
\<close>

theorem pagination_clamp_counterexample:
  "parseInt example_env ''150'' = Some 150
   \<and> fst (GetTransactions_pagination example_env ''150'' []) = 50
   \<and> fst (GetTransactions_pagination example_env ''150'' []) \<noteq> 100"
  by (simp add: GetTransactions_pagination_def page_limit_def parseInt_def example_env_def)

text \<open>
  Claim C3, amended. The page size is the requested value when it lies in \<open>1..100\<close>, and
  the default 50 when it is above 100, at most 0, absent or not a number; it always lies
  in \<open>1..100\<close>. The offset is the requested value when that is at least 0, and 0
  otherwise.
\<close>

theorem pagination_bounds:
  "(l \<noteq> [] \<and> parseInt e l = Some p \<and> 0 < p \<and> p \<le> 100 \<longrightarrow> fst (GetTransactions_pagination e l off) = p)
 \<and> (l \<noteq> [] \<and> parseInt e l = Some p \<and> p > 100 \<longrightarrow> fst (GetTransactions_pagination e l off) = 50)
 \<and> (l \<noteq> [] \<and> parseInt e l = Some p \<and> p \<le> 0 \<longrightarrow> fst (GetTransactions_pagination e l off) = 50)
 \<and> (l = [] \<or> parseInt e l = None \<longrightarrow> fst (GetTransactions_pagination e l off) = 50)
 \<and> (off \<noteq> [] \<and> parseInt e off = Some q \<and> q \<ge> 0 \<longrightarrow> snd (GetTransactions_pagination e l off) = q)
 \<and> (off = [] \<or> parseInt e off = None \<or> (\<exists>q. parseInt e off = Some q \<and> q < 0)
      \<longrightarrow> snd (GetTransactions_pagination e l off) = 0)
 \<and> 0 < fst (GetTransactions_pagination e l off) \<and> fst (GetTransactions_pagination e l off) \<le> 100
 \<and> 0 \<le> snd (GetTransactions_pagination e l off)"
  by (auto simp: GetTransactions_pagination_def page_limit_def page_offset_def split: option.splits)

theorem pagination_bounds_witness:
  "GetTransactions_pagination example_env ''20'' ''150'' = (20, 150)
 \<and> GetTransactions_pagination example_env ''150'' ''-5'' = (50, 0)
 \<and> GetTransactions_pagination example_env ''-5'' [] = (50, 0)
 \<and> GetTransactions_pagination example_env [] ''x'' = (50, 0)"
proof -
  have p: "parseInt example_env ''20'' = Some 20" "parseInt example_env ''150'' = Some 150"
    "parseInt example_env ''-5'' = Some (- 5)" "parseInt example_env ''x'' = None"
    by (simp_all add: parseInt_def example_env_def)
  have a: "fst (GetTransactions_pagination example_env ''20'' ''150'') = 20"
    using pagination_bounds[of "''20''" example_env 20 "''150''" 150] p by simp
  have b: "snd (GetTransactions_pagination example_env ''20'' ''150'') = 150"
    using pagination_bounds[of "''20''" example_env 20 "''150''" 150] p by simp
  have c: "fst (GetTransactions_pagination example_env ''150'' ''-5'') = 50"
    using pagination_bounds[of "''150''" example_env 150 "''-5''" "- 5"] p by simp
  have d: "snd (GetTransactions_pagination example_env ''150'' ''-5'') = 0"
    using pagination_bounds[of "''150''" example_env 150 "''-5''" "- 5"] p by simp
  have e: "fst (GetTransactions_pagination example_env ''-5'' []) = 50"
    using pagination_bounds[of "''-5''" example_env "- 5" "[]" 0] p by simp
  have f: "snd (GetTransactions_pagination example_env ''-5'' []) = 0"
    using pagination_bounds[of "''-5''" example_env "- 5" "[]" 0] p by simp
  have g: "fst (GetTransactions_pagination example_env [] ''x'') = 50"
    using pagination_bounds[of "[]" example_env 0 "''x''" 0] p by simp
  have h: "snd (GetTransactions_pagination example_env [] ''x'') = 0"
    using pagination_bounds[of "[]" example_env 0 "''x''" 0] p by simp
  from a b c d e f g h show ?thesis by (simp add: prod_eq_iff)
qed

subsection \<open>Insight generation\<close>

lemma fallback_titles_distinct:
  "savings_title \<noteq> positive_title" "savings_title \<noteq> alert_title" "positive_title \<noteq> alert_title"
  by (simp_all add: savings_title_def positive_title_def alert_title_def)

lemma fallback_insights_distinct:
  "savings_insight e now d \<noteq> positive_insight e now d"
  "savings_insight e now d \<noteq> alert_insight e now d"
  "positive_insight e now d \<noteq> alert_insight e now d"
  using fallback_titles_distinct
  by (auto simp: savings_insight_def positive_insight_def alert_insight_def)

lemma fallbackInsights_eq:
  "fallbackInsights e now d =
     (if SavingsDeposits d > 0 then [savings_insight e now d] else []) @
     (if NetBalance d > 0 then [positive_insight e now d]
      else if NetBalance d < 0 then [alert_insight e now d] else [])"
  by (simp add: fallbackInsights_def)

lemma fallbackInsights_length:
  "length (fallbackInsights e now d) =
     (if SavingsDeposits d > 0 then 1 else 0) + (if NetBalance d \<noteq> 0 then 1 else 0)"
  by (simp add: fallbackInsights_eq)

lemma AnalyzeSpending_fallback:
  "fst (generateContent e ctx w (prompt_text e d)) = Inr response \<Longrightarrow>
   parseInsights e now response = Inl err \<Longrightarrow>
     fst (AnalyzeSpending e ctx now w d) = Inr (fallbackInsights e now d)"
  by (cases "generateContent e ctx w (prompt_text e d)") (simp add: AnalyzeSpending_def)

lemma fallbackInsights_spelled:
  "fallbackInsights e now d =
     (if SavingsDeposits d > 0
      then [\<lparr>Title = [CHR 0xF0, CHR 0x9F, CHR 0x92, CHR 0xB0] @ '' Great Saving Habit!'',
             Message = ''You'' @ [CHR 0x27] @ ''ve saved K'' @ Sprintf_f0 e (SavingsDeposits d)
                         @ '' this period. Keep it up!'',
             InsightCategory = ''savings'', Priority = ''high'', GeneratedAt = now\<rparr>]
      else []) @
     (if NetBalance d > 0
      then [\<lparr>Title = [CHR 0xF0, CHR 0x9F, CHR 0x93, CHR 0x88] @ '' Positive Balance'',
             Message = ''Your income exceeds expenses by K'' @ Sprintf_f0 e (NetBalance d)
                         @ ''. Consider saving the surplus!'',
             InsightCategory = ''tip'', Priority = ''medium'', GeneratedAt = now\<rparr>]
      else if NetBalance d < 0
      then [\<lparr>Title = [CHR 0xE2, CHR 0x9A, CHR 0xA0, CHR 0xEF, CHR 0xB8, CHR 0x8F] @ '' Spending Alert'',
             Message = ''You'' @ [CHR 0x27] @ ''ve spent K'' @ Sprintf_f0 e (- NetBalance d)
                         @ '' more than earned. Review your expenses.'',
             InsightCategory = ''spending'', Priority = ''high'', GeneratedAt = now\<rparr>]
      else [])"
  by (simp add: fallbackInsights_eq savings_insight_def positive_insight_def alert_insight_def
      savings_title_def positive_title_def alert_title_def)

text \<open>
  Claim C6. When \<open>generateContent\<close> returns a response and \<open>parseInsights\<close> fails on
  it, \<open>AnalyzeSpending\<close> returns, without error, exactly this list: first, if and only if
  savings deposits are positive, the savings congratulation (title "Great Saving Habit!"
  after its emoji, the amount saved in the message, category savings, priority high);
  then the positive-balance insight (title "Positive Balance", the surplus in the message,
  category tip, priority medium) if the net balance is positive, or the spending alert
  (title "Spending Alert", the deficit in the message, category spending, priority high)
  if it is negative, and neither if it is 0. With net balance +500 and no savings the list
  is the positive-balance insight alone, and holds no spending alert.
\<close>

theorem fallback_determinism:
  assumes "fst (generateContent e ctx w (prompt_text e d)) = Inr response"
    and "parseInsights e now response = Inl err"
  shows "fst (AnalyzeSpending e ctx now w d) =
     Inr ((if SavingsDeposits d > 0
           then [\<lparr>Title = [CHR 0xF0, CHR 0x9F, CHR 0x92, CHR 0xB0] @ '' Great Saving Habit!'',
                  Message = ''You'' @ [CHR 0x27] @ ''ve saved K'' @ Sprintf_f0 e (SavingsDeposits d)
                              @ '' this period. Keep it up!'',
                  InsightCategory = ''savings'', Priority = ''high'', GeneratedAt = now\<rparr>]
           else []) @
          (if NetBalance d > 0
           then [\<lparr>Title = [CHR 0xF0, CHR 0x9F, CHR 0x93, CHR 0x88] @ '' Positive Balance'',
                  Message = ''Your income exceeds expenses by K'' @ Sprintf_f0 e (NetBalance d)
                              @ ''. Consider saving the surplus!'',
                  InsightCategory = ''tip'', Priority = ''medium'', GeneratedAt = now\<rparr>]
           else if NetBalance d < 0
           then [\<lparr>Title = [CHR 0xE2, CHR 0x9A, CHR 0xA0, CHR 0xEF, CHR 0xB8, CHR 0x8F]
                            @ '' Spending Alert'',
                  Message = ''You'' @ [CHR 0x27] @ ''ve spent K'' @ Sprintf_f0 e (- NetBalance d)
                              @ '' more than earned. Review your expenses.'',
                  InsightCategory = ''spending'', Priority = ''high'', GeneratedAt = now\<rparr>]
           else []))
   \<and> (NetBalance d = 500 \<and> SavingsDeposits d = 0 \<longrightarrow>
        fst (AnalyzeSpending e ctx now w d) =
          Inr [\<lparr>Title = [CHR 0xF0, CHR 0x9F, CHR 0x93, CHR 0x88] @ '' Positive Balance'',
                Message = ''Your income exceeds expenses by K'' @ Sprintf_f0 e 500
                            @ ''. Consider saving the surplus!'',
                InsightCategory = ''tip'', Priority = ''medium'', GeneratedAt = now\<rparr>])
   \<and> (case fst (AnalyzeSpending e ctx now w d) of
         Inl failure \<Rightarrow> False
       | Inr insights \<Rightarrow>
           (list_ex (\<lambda>i. InsightCategory i = ''savings'') insights \<longleftrightarrow> SavingsDeposits d > 0)
         \<and> (list_ex (\<lambda>i. InsightCategory i = ''tip'') insights \<longleftrightarrow> NetBalance d > 0)
         \<and> (list_ex (\<lambda>i. InsightCategory i = ''spending'') insights \<longleftrightarrow> NetBalance d < 0)
         \<and> int (length insights) = (if SavingsDeposits d > 0 then 1 else 0)
                                    + (if NetBalance d \<noteq> 0 then 1 else 0))"
proof -
  have a: "fst (AnalyzeSpending e ctx now w d) = Inr (fallbackInsights e now d)"
    using assms by (rule AnalyzeSpending_fallback)
  show ?thesis unfolding a fallbackInsights_spelled by simp
qed

theorem fallback_determinism_witness:
  "fst (AnalyzeSpending example_env RequestContext 200000000 example_world example_aggregate)
     = Inr [\<lparr>Title = [CHR 0xF0, CHR 0x9F, CHR 0x93, CHR 0x88] @ '' Positive Balance'',
             Message = ''Your income exceeds expenses by K500. Consider saving the surplus!'',
             InsightCategory = ''tip'', Priority = ''medium'', GeneratedAt = 200000000\<rparr>]"
proof -
  have 1: "fst (generateContent example_env RequestContext example_world
                  (prompt_text example_env example_aggregate)) = Inr ''no insights today''"
    by (simp add: generateContent_def example_env_def example_aggregate_def)
  have 2: "parseInsights example_env 200000000 ''no insights today''
             = Inl ''failed to unmarshal insights''"
    by (simp add: parseInsights_def example_env_def)
  have 3: "NetBalance example_aggregate = 500 \<and> SavingsDeposits example_aggregate = 0"
    by (simp add: example_aggregate_def)
  have 4: "Sprintf_f0 example_env 500 = ''500''" by (simp add: example_env_def)
  from fallback_determinism[OF 1 2] 3 show ?thesis by (simp add: 4)
qed

text \<open>
  Claim C8, as stated, fails in both directions. On the fallback path the aggregate of the
  example (one transaction, net balance +500, no savings) yields one insight; and when the
  response decodes to an array of four elements, four insights are returned.
\<close>

theorem insight_count_counterexample:
  "TransactionCount example_aggregate = 1
   \<and> map_sum id length
       (fst (AnalyzeSpending example_env RequestContext 200000000 example_world example_aggregate))
       = Inr 1
   \<and> map_sum id length
       (fst (AnalyzeSpending (example_env\<lparr>json_Unmarshal := (\<lambda>s. Some (replicate 4 example_raw))\<rparr>)
               RequestContext 200000000 example_world example_aggregate))
       = Inr 4"
  by (simp add: AnalyzeSpending_def generateContent_def parseInsights_def fallbackInsights_def
      Let_def example_env_def example_aggregate_def)

text \<open>
  Claim C8, amended. Whenever \<open>AnalyzeSpending\<close> returns insights, the service answered;
  if the cleaned answer decodes, the list has as many insights as the decoded array has
  elements, whatever that number is; if it does not decode, the list is the fallback list,
  of length at most 2: one insight if savings deposits are positive, plus one if the net
  balance is not 0.
\<close>

theorem insight_count:
  assumes "fst (AnalyzeSpending e ctx now w d) = Inr insights"
  shows "\<exists>response. http_generate e ctx (prompt_text e d) = Inr response
           \<and> (case json_Unmarshal e (clean_response e response) of
                None \<Rightarrow> insights = fallbackInsights e now d \<and> length insights \<le> 2
                         \<and> length insights = (if SavingsDeposits d > 0 then 1 else 0)
                                              + (if NetBalance d \<noteq> 0 then 1 else 0)
              | Some rawInsights \<Rightarrow> length insights = length rawInsights)"
proof (cases "http_generate e ctx (prompt_text e d)")
  case (Inl err)
  with assms show ?thesis
    by (cases ctx) (simp_all add: AnalyzeSpending_def generateContent_def)
next
  case (Inr response)
  from assms have ctx: "ctx = RequestContext"
    by (cases ctx) (simp_all add: AnalyzeSpending_def generateContent_def)
  show ?thesis
  proof (cases "json_Unmarshal e (clean_response e response)")
    case None
    with Inr assms ctx have "insights = fallbackInsights e now d"
      by (simp add: AnalyzeSpending_def generateContent_def parseInsights_def)
    with None Inr show ?thesis by (simp add: fallbackInsights_length)
  next
    case (Some rawInsights)
    with Inr assms ctx show ?thesis
      by (auto simp: AnalyzeSpending_def generateContent_def parseInsights_def)
  qed
qed

theorem insight_count_witness:
  "\<exists>response. http_generate example_env RequestContext (prompt_text example_env example_aggregate)
                 = Inr response
     \<and> json_Unmarshal example_env (clean_response example_env response) = None
     \<and> length [positive_insight example_env 200000000 example_aggregate] \<le> 2"
proof -
  have 1: "fst (AnalyzeSpending example_env RequestContext 200000000 example_world example_aggregate)
             = Inr [positive_insight example_env 200000000 example_aggregate]"
    by (simp add: AnalyzeSpending_def generateContent_def parseInsights_def fallbackInsights_def
        Let_def example_env_def example_aggregate_def)
  from insight_count[OF 1] obtain response where
    r: "http_generate example_env RequestContext (prompt_text example_env example_aggregate)
          = Inr response"
    and c: "case json_Unmarshal example_env (clean_response example_env response) of
              None \<Rightarrow> [positive_insight example_env 200000000 example_aggregate]
                         = fallbackInsights example_env 200000000 example_aggregate
                       \<and> length [positive_insight example_env 200000000 example_aggregate] \<le> 2
                       \<and> length [positive_insight example_env 200000000 example_aggregate]
                           = (if SavingsDeposits example_aggregate > 0 then 1 else 0)
                             + (if NetBalance example_aggregate \<noteq> 0 then 1 else 0)
            | Some rawInsights \<Rightarrow>
                length [positive_insight example_env 200000000 example_aggregate]
                  = length rawInsights"
    by blast
  have n: "json_Unmarshal example_env (clean_response example_env response) = None"
    by (simp add: example_env_def)
  from c have "length [positive_insight example_env 200000000 example_aggregate] \<le> 2"
    unfolding n option.case by blast
  with r n show ?thesis by blast
qed

subsection \<open>The notification text\<close>

lemma best_loop_titled:
  "\<forall>i \<in> set xs. Title i \<noteq> [] \<Longrightarrow> Title b \<noteq> [] \<Longrightarrow>
     best_loop b xs =
       (if filter (\<lambda>i. Priority i = ''high'') xs = [] then b
        else last (filter (\<lambda>i. Priority i = ''high'') xs))"
  by (induction xs arbitrary: b) auto

text \<open>
  Claim C7, as stated, fails when more than one insight has priority high: the loop keeps
  overwriting its choice, so the last of them is returned, not the first.
\<close>

theorem notification_text_counterexample:
  "Priority (example_insight ''two'' ''high'') = ''high''
   \<and> GenerateNotificationText
       [example_insight ''one'' ''low'', example_insight ''two'' ''high'',
        example_insight ''three'' ''high'']
       = (''three'', ''about three'')
   \<and> GenerateNotificationText
       [example_insight ''one'' ''low'', example_insight ''two'' ''high'',
        example_insight ''three'' ''high'']
       \<noteq> (Title (example_insight ''two'' ''high''), Message (example_insight ''two'' ''high''))"
  by (simp add: GenerateNotificationText_def example_insight_def zero_AIInsight_def)

text \<open>
  Claim C7, amended. For a non-empty list of insights that all have a title, the pair is
  the title and message of the last insight of priority high when there is one, and of the
  first insight of the list otherwise.
\<close>

theorem notification_text_choice:
  assumes "insights \<noteq> []" and "\<forall>i \<in> set insights. Title i \<noteq> []"
  shows "GenerateNotificationText insights =
           (if \<exists>i \<in> set insights. Priority i = ''high''
            then (Title (last (filter (\<lambda>i. Priority i = ''high'') insights)),
                  Message (last (filter (\<lambda>i. Priority i = ''high'') insights)))
            else (Title (hd insights), Message (hd insights)))"
proof -
  obtain x rest where xs: "insights = x # rest" using assms(1) by (cases insights) auto
  have t: "Title x \<noteq> []" "\<forall>i \<in> set rest. Title i \<noteq> []" using assms(2) xs by auto
  have "best_loop zero_AIInsight insights = best_loop x rest"
    by (simp add: xs zero_AIInsight_def)
  also have "\<dots> = (if filter (\<lambda>i. Priority i = ''high'') rest = [] then x
                    else last (filter (\<lambda>i. Priority i = ''high'') rest))"
    using best_loop_titled[OF t(2) t(1)] .
  finally have b: "best_loop zero_AIInsight insights =
      (if filter (\<lambda>i. Priority i = ''high'') rest = [] then x
       else last (filter (\<lambda>i. Priority i = ''high'') rest))" .
  show ?thesis
    unfolding GenerateNotificationText_def Let_def b
    using assms(1) by (auto simp: xs filter_empty_conv)
qed

theorem notification_text_choice_witness:
  "GenerateNotificationText
     [example_insight ''one'' ''low'', example_insight ''two'' ''high'',
      example_insight ''three'' ''high'', example_insight ''four'' ''medium'']
     = (''three'', ''about three'')
   \<and> GenerateNotificationText [example_insight ''one'' ''low'', example_insight ''two'' ''medium'']
     = (''one'', ''about one'')"
proof -
  have a: "GenerateNotificationText
     [example_insight ''one'' ''low'', example_insight ''two'' ''high'',
      example_insight ''three'' ''high'', example_insight ''four'' ''medium'']
     = (''three'', ''about three'')"
    using notification_text_choice[of "[example_insight ''one'' ''low'',
      example_insight ''two'' ''high'', example_insight ''three'' ''high'',
      example_insight ''four'' ''medium'']"]
    by (simp add: example_insight_def)
  have b: "GenerateNotificationText [example_insight ''one'' ''low'', example_insight ''two'' ''medium'']
     = (''one'', ''about one'')"
    using notification_text_choice[of "[example_insight ''one'' ''low'', example_insight ''two'' ''medium'']"]
    by (simp add: example_insight_def)
  from a b show ?thesis by simp
qed

subsection \<open>Aggregation\<close>

lemma fill_ByCategory_map_of:
  "distinct (map fst rows) \<Longrightarrow>
     fill_ByCategory rows m c = (case map_of rows c of Some v \<Rightarrow> Some v | None \<Rightarrow> m c)"
proof (induction rows arbitrary: m)
  case Nil
  then show ?case by simp
next
  case (Cons p rows)
  obtain k v where p: "p = (k, v)" by (cases p)
  from Cons.prems p have nk: "k \<notin> fst ` set rows" and d: "distinct (map fst rows)" by auto
  from nk have n: "c = k \<Longrightarrow> map_of rows c = None" by (simp add: map_of_eq_None_iff)
  have ih: "fill_ByCategory rows (m(k \<mapsto> v)) c =
              (case map_of rows c of Some v' \<Rightarrow> Some v' | None \<Rightarrow> (m(k \<mapsto> v)) c)"
    by (rule Cons.IH[OF d])
  show ?case unfolding p fill_ByCategory.simps ih using n
    by (auto split: option.splits)
qed

lemma group_by_category_keys: "map fst (group_by_category rows) = remdups (map tx_category rows)"
  by (simp add: group_by_category_def comp_def)

lemma map_of_group_by_category:
  "map_of (group_by_category rows) c =
     (if c \<in> tx_category ` set rows
      then Some (sum_list (map tx_amount (filter (\<lambda>r. tx_category r = c) rows)))
      else None)"
proof -
  have "map_of (map (\<lambda>k. (k, f k)) ks) c = (if c \<in> set ks then Some (f c) else None)"
    for f :: "string \<Rightarrow> real" and ks
    by (induction ks) auto
  then show ?thesis by (simp add: group_by_category_def)
qed

lemma ByCategory_lookup:
  "fill_ByCategory (group_by_category rows) Map.empty c =
     (if c \<in> tx_category ` set rows
      then Some (sum_list (map tx_amount (filter (\<lambda>r. tx_category r = c) rows)))
      else None)"
  by (simp add: fill_ByCategory_map_of group_by_category_keys map_of_group_by_category)

lemma sum_of_kind_filter:
  "sum_of_kind k rows = sum_list (map tx_amount (filter (\<lambda>r. tx_type r = k) rows))"
  unfolding sum_of_kind_def by (induction rows) auto

lemma rows_since_filter:
  "rows_since (w\<lparr>transactions := filter (\<lambda>r. tx_date r \<ge> s) (transactions w)\<rparr>) userID s
     = rows_since w userID s"
  by (auto simp: rows_since_def intro: filter_cong)

text \<open>
  Claim C4, as stated, fails at the upper end of the window. The specification's window is
  \<open>[now - period, now]\<close>, but the queries only require \<^verbatim>\<open>date >= startDate\<close>: user
  \<open>B\<close> of the example has no expense within the last day, and the payment of 40 dated
  one hour in the future is counted in the total expenses, the net balance and the
  transaction count.
\<close>

theorem aggregate_window_counterexample:
  "\<not> spec_window (startDate_of example_env 200000000 ''daily'') 200000000 203600000
   \<and> spec_sum_of_kind example_world ''B'' (startDate_of example_env 200000000 ''daily'') 200000000
        ''EXPENSE'' = 0
   \<and> map_option TotalExpenses (fetchSpendingData example_env example_world 200000000 ''B'' ''daily'')
        = Some 40
   \<and> map_option NetBalance (fetchSpendingData example_env example_world 200000000 ''B'' ''daily'')
        = Some 460
   \<and> map_option TransactionCount (fetchSpendingData example_env example_world 200000000 ''B'' ''daily'')
        = Some 2"
  by (simp add: fetchSpendingData_def rows_since_def sum_of_kind_def spec_sum_of_kind_def
      spec_window_rows_def spec_window_def startDate_of_def Let_def
      example_env_def example_world_def example_row_def)

text \<open>
  Claim C4, amended: the window is every timestamp at or after \<open>startDate\<close>, with no
  upper end. When the store answers the three queries, the aggregate is returned; its total
  income and total expenses are the sums of the amounts of the user's INCOME and EXPENSE
  transactions dated at or after \<open>startDate\<close>; the net balance is income minus expenses;
  the breakdown maps a category to the sum of the amounts of the user's EXPENSE transactions
  of that category dated at or after \<open>startDate\<close>, and has no entry for a category
  without one; the count is the number of the user's transactions dated at or after
  \<open>startDate\<close>. Transactions dated before \<open>startDate\<close> contribute nothing: removing
  them from the table leaves the aggregate as it is.
\<close>

theorem aggregate_correct:
  assumes "\<not> db_err e (TotalsQuery userID)" "\<not> db_err e (CategoryQuery userID)"
    "\<not> db_err e (SavingsQuery userID)"
  shows "\<exists>d. fetchSpendingData e w now userID period = Some d
     \<and> TotalIncome d = sum_list (map tx_amount (filter (\<lambda>r. tx_user_id r = userID
          \<and> tx_date r \<ge> startDate_of e now period \<and> tx_type r = ''INCOME'') (transactions w)))
     \<and> TotalExpenses d = sum_list (map tx_amount (filter (\<lambda>r. tx_user_id r = userID
          \<and> tx_date r \<ge> startDate_of e now period \<and> tx_type r = ''EXPENSE'') (transactions w)))
     \<and> NetBalance d = TotalIncome d - TotalExpenses d
     \<and> (\<forall>c. ByCategory d c =
           (if \<exists>r \<in> set (transactions w). tx_user_id r = userID
                 \<and> tx_date r \<ge> startDate_of e now period \<and> tx_type r = ''EXPENSE''
                 \<and> tx_category r = c
            then Some (sum_list (map tx_amount (filter (\<lambda>r. tx_user_id r = userID
                   \<and> tx_date r \<ge> startDate_of e now period \<and> tx_type r = ''EXPENSE''
                   \<and> tx_category r = c) (transactions w))))
            else None))
     \<and> TransactionCount d = int (length (filter (\<lambda>r. tx_user_id r = userID
          \<and> tx_date r \<ge> startDate_of e now period) (transactions w)))
     \<and> fetchSpendingData e
          (w\<lparr>transactions := filter (\<lambda>r. tx_date r \<ge> startDate_of e now period) (transactions w)\<rparr>)
          now userID period = Some d"
proof -
  let ?s = "startDate_of e now period"
  let ?rows = "rows_since w userID ?s"
  obtain d where d: "fetchSpendingData e w now userID period = Some d"
    using assms by (simp add: fetchSpendingData_def Let_def)
  have inc: "TotalIncome d = sum_of_kind ''INCOME'' ?rows"
    and exp: "TotalExpenses d = sum_of_kind ''EXPENSE'' ?rows"
    and net: "NetBalance d = TotalIncome d - TotalExpenses d"
    and cnt: "TransactionCount d = int (length ?rows)"
    and cat: "ByCategory d = fill_ByCategory
                 (group_by_category (filter (\<lambda>r. tx_type r = ''EXPENSE'') ?rows)) Map.empty"
    using d assms by (auto simp: fetchSpendingData_def Let_def)
  have 1: "TotalIncome d = sum_list (map tx_amount (filter (\<lambda>r. tx_user_id r = userID
          \<and> tx_date r \<ge> ?s \<and> tx_type r = ''INCOME'') (transactions w)))"
    unfolding inc sum_of_kind_filter rows_since_def filter_filter
    by (rule arg_cong[where f="\<lambda>p. sum_list (map tx_amount (filter p (transactions w)))"]) auto
  have 2: "TotalExpenses d = sum_list (map tx_amount (filter (\<lambda>r. tx_user_id r = userID
          \<and> tx_date r \<ge> ?s \<and> tx_type r = ''EXPENSE'') (transactions w)))"
    unfolding exp sum_of_kind_filter rows_since_def filter_filter
    by (rule arg_cong[where f="\<lambda>p. sum_list (map tx_amount (filter p (transactions w)))"]) auto
  have 4: "ByCategory d c =
           (if \<exists>r \<in> set (transactions w). tx_user_id r = userID
                 \<and> tx_date r \<ge> ?s \<and> tx_type r = ''EXPENSE'' \<and> tx_category r = c
            then Some (sum_list (map tx_amount (filter (\<lambda>r. tx_user_id r = userID
                   \<and> tx_date r \<ge> ?s \<and> tx_type r = ''EXPENSE''
                   \<and> tx_category r = c) (transactions w))))
            else None)" for c
  proof -
    have f: "filter (\<lambda>r. tx_category r = c) (filter (\<lambda>r. tx_type r = ''EXPENSE'') ?rows)
          = filter (\<lambda>r. tx_user_id r = userID \<and> tx_date r \<ge> ?s \<and> tx_type r = ''EXPENSE''
                   \<and> tx_category r = c) (transactions w)"
      unfolding rows_since_def filter_filter
      by (rule arg_cong[where f="\<lambda>p. filter p (transactions w)"]) auto
    show ?thesis
      unfolding cat ByCategory_lookup f
      by (auto simp: rows_since_def)
  qed
  have 5: "TransactionCount d = int (length (filter (\<lambda>r. tx_user_id r = userID
          \<and> tx_date r \<ge> ?s) (transactions w)))"
    unfolding cnt rows_since_def ..
  have 6: "fetchSpendingData e (w\<lparr>transactions := filter (\<lambda>r. tx_date r \<ge> ?s) (transactions w)\<rparr>)
          now userID period = Some d"
    unfolding d[symmetric] by (simp add: fetchSpendingData_def rows_since_filter)
  from d 1 2 net 4 5 6 show ?thesis by blast
qed

theorem aggregate_correct_witness:
  "map_option TotalIncome (fetchSpendingData example_env example_world 200000000 ''B'' ''daily'')
     = Some 500
   \<and> map_option TotalExpenses (fetchSpendingData example_env example_world 200000000 ''B'' ''daily'')
     = Some 40
   \<and> map_option (\<lambda>d. ByCategory d ''AIRTIME'')
       (fetchSpendingData example_env example_world 200000000 ''B'' ''daily'') = Some (Some 40)
   \<and> map_option (\<lambda>d. ByCategory d ''FOOD'')
       (fetchSpendingData example_env example_world 200000000 ''B'' ''daily'') = Some None"
proof -
  have h: "\<not> db_err example_env (TotalsQuery ''B'')" "\<not> db_err example_env (CategoryQuery ''B'')"
    "\<not> db_err example_env (SavingsQuery ''B'')"
    by (simp_all add: example_env_def)
  have s: "startDate_of example_env 200000000 ''daily'' = 113600000"
    by (simp add: startDate_of_def example_env_def)
  from aggregate_correct[OF h, of example_world 200000000 "''daily''"]
  show ?thesis unfolding s
    by (auto simp: example_world_def example_row_def)
qed

subsection \<open>The empty aggregate\<close>

lemma fetch_empty_count:
  "rows_since w userID (startDate_of e now period) = [] \<Longrightarrow>
   fetchSpendingData e w now userID period = Some d \<Longrightarrow> TransactionCount d = 0"
  by (auto simp: fetchSpendingData_def Let_def split: if_splits)

text \<open>
  Claim C5, as stated, fails for the same reason as claim C4. User \<open>D\<close> of the example
  has no transaction in the specification's window \<open>[now - 1 day, now]\<close>, only one dated
  an hour in the future; the aggregate counts it, the on-demand endpoint calls the
  text-generation service and returns an insight.
\<close>

theorem empty_window_counterexample:
  "spec_window_rows example_world ''D'' (startDate_of example_env 200000000 ''daily'') 200000000 = []
   \<and> gemini_log example_world = []
   \<and> gemini_log (snd (GenerateInsights example_env example_world 200000000 ''D'')) = [''D'']
   \<and> fst (GenerateInsights example_env example_world 200000000 ''D'')
       = InsightsGenerated
           [\<lparr>Title = alert_title,
             Message = ''You'' @ [CHR 0x27] @ ''ve spent K40 more than earned. Review your expenses.'',
             InsightCategory = ''spending'', Priority = ''high'', GeneratedAt = 200000000\<rparr>]
           ''daily'' 1"
  by (simp add: GenerateInsights_def fetchSpendingData_def rows_since_def sum_of_kind_def
      spec_window_rows_def spec_window_def startDate_of_def Let_def
      AnalyzeSpending_def generateContent_def parseInsights_def fallbackInsights_def
      alert_insight_def
      example_env_def example_world_def example_row_def)

text \<open>
  Claim C5, amended: the window is every timestamp at or after \<open>now - 1 day\<close>. For a user
  with no transaction dated at or after that instant, the on-demand endpoint leaves the
  state as it is (no call to the text-generation service, no insight stored, no push) and
  answers with an empty list of insights, or with the fetch error when the totals query
  failed; and the step of the scheduled sweep for that user leaves the state and both
  counters as they are.
\<close>

theorem empty_window_short_circuit:
  assumes "rows_since w (usr_id u) (startDate_of e (now (usr_id u)) ''daily'') = []"
  shows "snd (GenerateInsights e w (now (usr_id u)) (usr_id u)) = w
       \<and> (fst (GenerateInsights e w (now (usr_id u)) (usr_id u)) = NoTransactions
          \<or> fst (GenerateInsights e w (now (usr_id u)) (usr_id u)) = FetchFailed
             \<and> db_err e (TotalsQuery (usr_id u)))
       \<and> daily_user e now u (w, successCount, errorCount) = (w, successCount, errorCount)"
proof (cases "fetchSpendingData e w (now (usr_id u)) (usr_id u) ''daily''")
  case None
  then have "db_err e (TotalsQuery (usr_id u))"
    by (auto simp: fetchSpendingData_def Let_def split: if_splits)
  with None show ?thesis by (simp add: GenerateInsights_def daily_user_def)
next
  case (Some d)
  from fetch_empty_count[OF assms Some] have "TransactionCount d = 0" .
  with Some show ?thesis by (simp add: GenerateInsights_def daily_user_def)
qed

theorem empty_window_short_circuit_witness:
  "GenerateInsights example_env example_world 200000000 ''C'' = (NoTransactions, example_world)
   \<and> daily_user example_env (\<lambda>userID. 200000000) example_user_C (example_world, 0, 0)
       = (example_world, 0, 0)"
proof -
  have u: "usr_id example_user_C = ''C''" by (simp add: example_user_C_def)
  have h: "rows_since example_world (usr_id example_user_C)
             (startDate_of example_env ((\<lambda>userID. 200000000) (usr_id example_user_C)) ''daily'') = []"
    by (simp add: u rows_since_def example_world_def example_row_def)
  have n: "\<not> db_err example_env (TotalsQuery ''C'')" by (simp add: example_env_def)
  from empty_window_short_circuit[OF h, of 0 0] n show ?thesis
    by (simp add: u prod_eq_iff)
qed

subsection \<open>The scheduled sweep\<close>

text \<open>The sweep passes the nil context, so its generation step fails at once.\<close>

lemma generateContent_nil:
  "generateContent e NilContext w prompt =
     (Inl ''failed to create request: net/http: nil Context'', w)"
  by (simp add: generateContent_def)

lemma AnalyzeSpending_nil:
  "AnalyzeSpending e NilContext t w d =
     (Inl ''failed to generate content: failed to create request: net/http: nil Context'', w)"
  by (simp add: AnalyzeSpending_def generateContent_nil)

lemma fetch_nonempty_iff:
  "(case fetchSpendingData e w t userID ''daily'' of
      None \<Rightarrow> False | Some d \<Rightarrow> TransactionCount d \<noteq> 0)
   \<longleftrightarrow> \<not> db_err e (TotalsQuery userID)
       \<and> list_ex (\<lambda>r. tx_user_id r = userID \<and> tx_date r \<ge> AddDate e 0 0 (- 1) t) (transactions w)"
  by (auto simp: fetchSpendingData_def Let_def rows_since_def startDate_of_def list_ex_iff
      filter_empty_conv)

lemma daily_user_nil:
  "daily_user e now u (w, s, r) =
     (w, s,
      if \<not> db_err e (TotalsQuery (usr_id u))
         \<and> list_ex (\<lambda>r. tx_user_id r = usr_id u
                          \<and> tx_date r \<ge> AddDate e 0 0 (- 1) (now (usr_id u))) (transactions w)
      then r + 1 else r)"
proof (cases "fetchSpendingData e w (now (usr_id u)) (usr_id u) ''daily''")
  case None
  with fetch_nonempty_iff[of e w "now (usr_id u)" "usr_id u"] show ?thesis
    by (simp add: daily_user_def)
next
  case (Some d)
  with fetch_nonempty_iff[of e w "now (usr_id u)" "usr_id u"] show ?thesis
    by (simp add: daily_user_def AnalyzeSpending_nil)
qed

lemma sweep_loop_nil:
  "sweep_loop e now us (w, s, r) =
     (w, s,
      r + int (length (filter
            (\<lambda>u. \<not> db_err e (TotalsQuery (usr_id u))
                 \<and> list_ex (\<lambda>r. tx_user_id r = usr_id u
                                  \<and> tx_date r \<ge> AddDate e 0 0 (- 1) (now (usr_id u)))
                      (transactions w)) us)))"
proof (induction us arbitrary: r)
  case Nil
  show ?case by simp
next
  case (Cons u us)
  show ?case unfolding sweep_loop.simps daily_user_nil Cons.IH by simp
qed

lemma RunDailyAnalysis_nil:
  "RunDailyAnalysis e now w =
     (w, if db_err e UsersQuery then None
         else Some (0, int (length (filter
            (\<lambda>u. \<not> db_err e (TotalsQuery (usr_id u))
                 \<and> list_ex (\<lambda>r. tx_user_id r = usr_id u
                                  \<and> tx_date r \<ge> AddDate e 0 0 (- 1) (now (usr_id u)))
                      (transactions w))
            (filter (\<lambda>u. usr_consent_given u \<and> usr_fcm_token u \<noteq> None) (users w))))))"
  by (simp add: RunDailyAnalysis_def sweep_loop_nil sweep_users_def)

lemma scheduler_rounds_nil:
  "scheduler_rounds e clock nows n w =
     (w, map (\<lambda>k. ((if today_6am e (clock k) < clock k then today_6am e (clock k) + 86400000
                     else today_6am e (clock k)) - clock k,
                    snd (RunDailyAnalysis e (nows k) w))) [0..<n])"
proof (induction n)
  case 0
  show ?case by simp
next
  case (Suc n)
  have r: "RunDailyAnalysis e (nows n) w = (w, snd (RunDailyAnalysis e (nows n) w))"
    by (simp add: RunDailyAnalysis_nil)
  show ?case unfolding scheduler_rounds.simps Suc.IH prod.case
    by (subst r) (simp add: until_next_6am_def Let_def)
qed

text \<open>
  Claim C9. The first half of the claim holds: whatever the generation service, the push
  service and the store do for single users, the sweep goes once through the consenting
  users with a push token and returns, and every round of the scheduler loop ends in the
  next sleep until 06:00. The second half does not: the sweep never produces an insight.
  It hands the nil context to \<open>AnalyzeSpending\<close>, the request cannot be built, and
  generation fails for every user with a non-empty aggregate, also when the service would
  answer, as it does on the on-demand path. So the sweep leaves the state as it found it
  (nothing is posted to the service, no insight is stored, no push is sent), its success
  counter is 0 and its error counter is the number of swept users that have a transaction
  dated within the last day or later and whose totals query the store answered; the sweep
  reports nothing when the users query fails. After any number \<open>n\<close> of rounds the
  scheduler has slept \<open>n\<close> times until the next 06:00 and has run \<open>n\<close> such sweeps.
\<close>

theorem sweep_generates_nothing:
  "RunDailyAnalysis e now w =
     (w, if db_err e UsersQuery then None
         else Some (0, int (length (filter
            (\<lambda>u. \<not> db_err e (TotalsQuery (usr_id u))
                 \<and> list_ex (\<lambda>r. tx_user_id r = usr_id u
                                  \<and> tx_date r \<ge> AddDate e 0 0 (- 1) (now (usr_id u)))
                      (transactions w))
            (filter (\<lambda>u. usr_consent_given u \<and> usr_fcm_token u \<noteq> None) (users w))))))
   \<and> scheduler_rounds e clock nows n w =
     (w, map (\<lambda>k. ((if today_6am e (clock k) < clock k then today_6am e (clock k) + 86400000
                     else today_6am e (clock k)) - clock k,
                    if db_err e UsersQuery then None
                    else Some (0, int (length (filter
                       (\<lambda>u. \<not> db_err e (TotalsQuery (usr_id u))
                            \<and> list_ex (\<lambda>r. tx_user_id r = usr_id u
                                   \<and> tx_date r \<ge> AddDate e 0 0 (- 1) (nows k (usr_id u)))
                                 (transactions w))
                       (filter (\<lambda>u. usr_consent_given u \<and> usr_fcm_token u \<noteq> None) (users w)))))))
           [0..<n])"
  unfolding scheduler_rounds_nil by (simp add: RunDailyAnalysis_nil)

text \<open>
  In the example both \<open>A\<close> and \<open>B\<close> have a transaction within the last day and the
  service answers the prompt of \<open>B\<close>: the on-demand endpoint returns an insight for
  \<open>B\<close>, the sweep counts two errors and changes nothing.
\<close>

theorem sweep_generates_nothing_witness:
  "RunDailyAnalysis example_env (\<lambda>userID. 200000000) example_world = (example_world, Some (0, 2))
   \<and> scheduler_rounds example_env (\<lambda>k. 200000000) (\<lambda>k userID. 200000000) 2 example_world
       = (example_world, [(80800000, Some (0, 2)), (80800000, Some (0, 2))])
   \<and> fst (GenerateInsights example_env example_world 200000000 ''B'')
       = InsightsGenerated
           [\<lparr>Title = [CHR 0xF0, CHR 0x9F, CHR 0x93, CHR 0x88] @ '' Positive Balance'',
             Message = ''Your income exceeds expenses by K460. Consider saving the surplus!'',
             InsightCategory = ''tip'', Priority = ''medium'', GeneratedAt = 200000000\<rparr>]
           ''daily'' 2"
proof -
  have a: "RunDailyAnalysis example_env (\<lambda>userID. 200000000) example_world
             = (example_world, Some (0, 2))"
    using sweep_generates_nothing[of example_env "\<lambda>userID. 200000000" example_world]
    by (simp add: example_env_def example_world_def example_user_defs example_row_def)
  have b: "fst (GenerateInsights example_env example_world 200000000 ''B'')
       = InsightsGenerated
           [\<lparr>Title = [CHR 0xF0, CHR 0x9F, CHR 0x93, CHR 0x88] @ '' Positive Balance'',
             Message = ''Your income exceeds expenses by K460. Consider saving the surplus!'',
             InsightCategory = ''tip'', Priority = ''medium'', GeneratedAt = 200000000\<rparr>]
           ''daily'' 2"
    by (simp add: GenerateInsights_def fetchSpendingData_def rows_since_def sum_of_kind_def
        startDate_of_def Let_def AnalyzeSpending_def generateContent_def parseInsights_def
        fallbackInsights_def positive_insight_def positive_title_def
        example_env_def example_world_def example_row_def)
  have n2: "[0..<2] = [0, Suc 0]" by (simp add: upt_rec)
  have c: "scheduler_rounds example_env (\<lambda>k. 200000000) (\<lambda>k userID. 200000000) 2 example_world
             = (example_world, [(80800000, Some (0, 2)), (80800000, Some (0, 2))])"
    using sweep_generates_nothing[of example_env "\<lambda>userID. 200000000" example_world
        "\<lambda>k. 200000000" "\<lambda>k userID. 200000000" 2]
    by (simp add: n2 example_env_def example_world_def example_user_defs example_row_def)
  from a b c show ?thesis by simp
qed

end
